theory Spec2Isabelle
  imports Complex_Main "HOL-Library.Sublist" "HOL-Library.Multiset"
begin

section \<open>Strings, as Python has them\<close>

text \<open>
  A Python \<open>str\<close> is a sequence of Unicode code points; \<open>len\<close>, slicing and \<open>in\<close> count
  code points. A string is therefore a list of code points, each a natural number. The
  catalog and the narrative of the service use code points beyond ASCII (accented letters,
  emoji), which are written as numbers between ASCII runs.
\<close>

type_synonym pystr = "nat list"

definition ascii :: "string \<Rightarrow> pystr" where
  "ascii s = map of_char s"

text \<open>
  \<open>str.lower()\<close>. On Basic Latin and Latin-1 the method works code point by code point:
  \<open>A\<close>..\<open>Z\<close> and U+00C0..U+00DE except the multiplication sign U+00D7 move up by 32, every
  other code point below 256 stays. The model leaves code points from 256 on unchanged, which is
  what Python does for the caseless ones (the emoji of the narrative among them); the Unicode
  case tables beyond Latin-1 are not part of the model.
\<close>

definition lower_cp :: "nat \<Rightarrow> nat" where
  "lower_cp c =
     (if 0x41 \<le> c \<and> c \<le> 0x5A then c + 32
      else if 0xC0 \<le> c \<and> c \<le> 0xDE \<and> c \<noteq> 0xD7 then c + 32
      else c)"

definition lower :: "pystr \<Rightarrow> pystr" where
  "lower s = map lower_cp s"

text \<open>\<open>a in b\<close> on strings: \<open>a\<close> occurs in \<open>b\<close> as a contiguous run. The empty string occurs
  in every string.\<close>

fun is_substr :: "pystr \<Rightarrow> pystr \<Rightarrow> bool" where
  "is_substr a [] = (a = [])"
| "is_substr a (c # cs) = (prefix a (c # cs) \<or> is_substr a cs)"

text \<open>\<open>sep.join(parts)\<close>.\<close>

fun join :: "pystr \<Rightarrow> pystr list \<Rightarrow> pystr" where
  "join sep [] = []"
| "join sep [p] = p"
| "join sep (p # q # ps) = p @ sep @ join sep (q # ps)"

text \<open>\<open>str(n)\<close> for a length: the decimal digits of a natural number.\<close>

fun str_nat :: "nat \<Rightarrow> pystr" where
  "str_nat n = (if n < 10 then [0x30 + n] else str_nat (n div 10) @ [0x30 + n mod 10])"

declare str_nat.simps [simp del]

text \<open>
  An \<open>Optional[str]\<close> query parameter under \<open>if location:\<close>: \<open>None\<close> and the empty string
  are both false, so the guarded filter runs on a present, non-empty string only.
  \<open>given p\<close> is that string, if there is one.
\<close>

fun given :: "pystr option \<Rightarrow> pystr option" where
  "given None = None"
| "given (Some s) = (if s = [] then None else Some s)"

text \<open>
  \<open>repr\<close> of a list of strings, as the f-string of the not-found message prints
  \<open>list(CELL_SITES_DB.keys())\<close>: each string between single quotes, separated by a comma and a
  space, in brackets. (Python escapes quotes, backslashes and unprintable code points inside
  the quotes; the bucket keys are plain lowercase words and have none.)
\<close>

definition repr_str :: "pystr \<Rightarrow> pystr" where
  "repr_str s = [0x27] @ s @ [0x27]"

definition repr_list :: "pystr list \<Rightarrow> pystr" where
  "repr_list xs = ascii ''['' @ join (ascii '', '') (map repr_str xs) @ ascii '']''"

section \<open>Data model\<close>

text \<open>
  The pydantic models and the dictionaries of the catalog, one record each. Field names are
  the source's, except where two models share a name: \<open>location\<close>, \<open>status\<close> of a cell
  site are \<open>site_location\<close>, \<open>site_status\<close>; \<open>issue_type\<close>, \<open>status\<close>, \<open>description\<close> of an
  incident are \<open>inc_issue_type\<close>, \<open>inc_status\<close>, \<open>inc_description\<close>; \<open>description\<close> of a product
  is \<open>prod_description\<close>. The float fields hold the decimal fractions written in the source,
  as rationals; the only computation on them is the comparison of success rates, which orders
  these decimals as it orders their floats. A \<open>datetime\<close> is a number of microseconds.
\<close>

type_synonym datetime = int

definition hours :: "int \<Rightarrow> int" where
  "hours h = h * 3600000000"

definition days :: "int \<Rightarrow> int" where
  "days d = d * 86400000000"

record cell_site =
  site_id :: pystr
  site_name :: pystr
  site_location :: pystr
  technologies :: "pystr list"
  sectors :: int
  site_status :: pystr
  coverage_radius_km :: rat
  coordinates :: "(pystr \<times> rat) list"

record incident =
  incident_id :: pystr
  inc_issue_type :: pystr
  affected_area :: pystr
  affected_sites :: "pystr list"
  severity :: pystr
  start_time :: datetime
  estimated_resolution :: "datetime option"
  inc_status :: pystr
  inc_description :: pystr
  affected_customers :: int

record maintenance =
  maintenance_id :: pystr
  sites :: "pystr list"
  scheduled_start :: datetime
  scheduled_end :: datetime
  maintenance_type :: pystr
  impact :: pystr
  affected_services :: "pystr list"
  notification_sent :: bool

record product =
  product_name :: pystr
  category :: pystr
  prod_description :: pystr
  use_cases :: "pystr list"
  benefits :: "pystr list"
  url :: pystr

record similar_case =
  case_id :: pystr
  issue_description :: pystr
  root_cause :: pystr
  solution_applied :: pystr
  resolution_time_hours :: rat
  success_rate :: rat
  location_type :: pystr

record diagnostic_request =
  location :: pystr
  issue_type :: pystr
  symptoms :: "pystr list"
  network_technology :: "pystr option"

record diagnostic_response =
  context_found :: bool
  cell_sites_nearby :: "cell_site list"
  active_incidents :: "incident list"
  scheduled_maintenance :: "maintenance list"
  similar_cases :: "similar_case list"
  recommended_products :: "product list"
  additional_context :: pystr

datatype http_error = HTTPException (status_code: nat) (detail: pystr)

section \<open>The catalog\<close>

text \<open>
  The module-level tables. A dictionary is an association list in insertion order, the order
  in which Python iterates it. The incident and maintenance tables call \<open>datetime.now()\<close>
  six times while the module is loaded; \<open>clk k\<close> is the \<open>k\<close>-th of these readings, in the
  order of evaluation.
\<close>

type_synonym clock = "nat \<Rightarrow> datetime"

definition CELL_SITES_DB :: "(pystr \<times> cell_site list) list" where
  "CELL_SITES_DB =
  [
    (ascii ''valencia'', [
      \<lparr>
         site_id = ascii ''VLC-001'',
         site_name = ascii ''Valencia Centro - Ayuntamiento'',
         site_location = ascii ''Plaza del Ayuntamiento, Valencia'',
         technologies = [ascii ''4G'', ascii ''5G NSA'', ascii ''5G SA''],
         sectors = 3,
         site_status = ascii ''active'',
         coverage_radius_km = (12 / 10),
         coordinates = [(ascii ''lat'', (394699 / 10000)), (ascii ''lon'', (- (3763 / 10000)))]
      \<rparr>,
      \<lparr>
         site_id = ascii ''VLC-002'',
         site_name = (ascii ''Valencia Centro - X'' @ [0xE0] @ ascii ''tiva''),
         site_location = (ascii ''Calle X'' @ [0xE0] @ ascii ''tiva, Valencia''),
         technologies = [ascii ''4G'', ascii ''5G NSA''],
         sectors = 3,
         site_status = ascii ''degraded'',
         coverage_radius_km = (8 / 10),
         coordinates = [(ascii ''lat'', (394665 / 10000)), (ascii ''lon'', (- (3769 / 10000)))]
      \<rparr>,
      \<lparr>
         site_id = ascii ''VLC-003'',
         site_name = (ascii ''Valencia Centro - Col'' @ [0xF3] @ ascii ''n''),
         site_location = (ascii ''Plaza de Col'' @ [0xF3] @ ascii ''n, Valencia''),
         technologies = [ascii ''4G'', ascii ''5G NSA'', ascii ''5G SA''],
         sectors = 3,
         site_status = ascii ''active'',
         coverage_radius_km = (15 / 10),
         coordinates = [(ascii ''lat'', (394731 / 10000)), (ascii ''lon'', (- (3719 / 10000)))]
      \<rparr>
    ]),
    (ascii ''paterna'', [
      \<lparr>
         site_id = ascii ''PTR-001'',
         site_name = (ascii ''Paterna Pol'' @ [0xED] @ ascii ''gono Industrial''),
         site_location = (ascii ''Pol'' @ [0xED] @ ascii ''gono Industrial Vara de Quart, Paterna''),
         technologies = [ascii ''4G'', ascii ''5G NSA''],
         sectors = 3,
         site_status = ascii ''active'',
         coverage_radius_km = (20 / 10),
         coordinates = [(ascii ''lat'', (395167 / 10000)), (ascii ''lon'', (- (4500 / 10000)))]
      \<rparr>,
      \<lparr>
         site_id = ascii ''PTR-002'',
         site_name = (ascii ''Paterna Centro Tecnol'' @ [0xF3] @ ascii ''gico''),
         site_location = (ascii ''Parc Tecnol'' @ [0xF2] @ ascii ''gic, Paterna''),
         technologies = [ascii ''4G'', ascii ''5G NSA'', ascii ''5G SA''],
         sectors = 3,
         site_status = ascii ''active'',
         coverage_radius_km = (18 / 10),
         coordinates = [(ascii ''lat'', (395200 / 10000)), (ascii ''lon'', (- (4450 / 10000)))]
      \<rparr>
    ]),
    (ascii ''madrid'', [
      \<lparr>
         site_id = ascii ''MAD-A3-280'',
         site_name = (ascii ''A3 Autov'' @ [0xED] @ ascii ''a - KM 280''),
         site_location = (ascii ''Autov'' @ [0xED] @ ascii ''a A3, KM 280''),
         technologies = [ascii ''4G'', ascii ''VoLTE''],
         sectors = 3,
         site_status = ascii ''active'',
         coverage_radius_km = (35 / 10),
         coordinates = [(ascii ''lat'', (397500 / 10000)), (ascii ''lon'', (- (12000 / 10000)))]
      \<rparr>
    ]),
    (ascii ''barcelona'', [
      \<lparr>
         site_id = ascii ''BCN-M01'',
         site_name = ascii ''Barcelona Metro L1 - Arc Triomf'',
         site_location = (ascii ''Metro L1, Estaci'' @ [0xF3] @ ascii ''n Arc de Triomf''),
         technologies = [ascii ''4G'', ascii ''VoLTE''],
         sectors = 2,
         site_status = ascii ''active'',
         coverage_radius_km = (3 / 10),
         coordinates = [(ascii ''lat'', (413908 / 10000)), (ascii ''lon'', (21808 / 10000))]
      \<rparr>
    ])
  ]"

definition ACTIVE_INCIDENTS_DB :: "clock \<Rightarrow> incident list" where
  "ACTIVE_INCIDENTS_DB clk =
  [
      \<lparr>
         incident_id = ascii ''INC-2024-1142'',
         inc_issue_type = ascii ''interference'',
         affected_area = ascii ''Valencia Centro - Plaza Ayuntamiento'',
         affected_sites = [ascii ''VLC-001'', ascii ''VLC-002''],
         severity = ascii ''high'',
         start_time = clk 0 - hours 18,
         estimated_resolution = Some (clk 1 + hours 6),
         inc_status = ascii ''in_progress'',
         inc_description = ascii ''PCI conflict detectado entre site VLC-001 sector 2 y VLC-002 sector 1 causando interferencia co-channel en banda 5G NSA. Kenmei AI ha identificado overshooting en VLC-002.'',
         affected_customers = 1250
      \<rparr>,
      \<lparr>
         incident_id = ascii ''INC-2024-1138'',
         inc_issue_type = ascii ''coverage'',
         affected_area = (ascii ''Paterna - Pol'' @ [0xED] @ ascii ''gono Industrial Vara de Quart''),
         affected_sites = [ascii ''PTR-001''],
         severity = ascii ''medium'',
         start_time = clk 2 - days 7,
         estimated_resolution = Some (clk 3 + hours 48),
         inc_status = ascii ''investigating'',
         inc_description = (ascii ''Degradaci'' @ [0xF3] @ ascii ''n gradual de se'' @ [0xF1] @ ascii ''al 5G detectada por Kenmei Geolocation. An'' @ [0xE1] @ ascii ''lisis de drive test virtual muestra ca'' @ [0xED] @ ascii ''da de RSRP en -10 dBm en '' @ [0xFA] @ ascii ''ltima semana. Probable misconfiguration de tilt de antena.''),
         affected_customers = 450
      \<rparr>
  ]"

definition SCHEDULED_MAINTENANCE_DB :: "clock \<Rightarrow> maintenance list" where
  "SCHEDULED_MAINTENANCE_DB clk =
  [
      \<lparr>
         maintenance_id = ascii ''MAINT-2024-0891'',
         sites = [ascii ''VLC-002''],
         scheduled_start = clk 4 - hours 20,
         scheduled_end = clk 5 + hours 4,
         maintenance_type = ascii ''Software upgrade + antenna optimization'',
         impact = ascii ''Posibles cortes intermitentes de 5G NSA, fallback a 4G disponible'',
         affected_services = [ascii ''5G NSA''],
         notification_sent = True
      \<rparr>
  ]"

definition KENMEI_PRODUCTS_DB :: "product list" where
  "KENMEI_PRODUCTS_DB =
  [
      \<lparr>
         product_name = ascii ''Kenmei AI Agents - Anomaly Detection'',
         category = ascii ''AI Agents'',
         prod_description = (ascii ''Detecci'' @ [0xF3] @ ascii ''n autom'' @ [0xE1] @ ascii ''tica de anomal'' @ [0xED] @ ascii ''as en redes m'' @ [0xF3] @ ascii ''viles usando Machine Learning. Identifica patrones anormales en KPIs antes de que afecten a clientes.''),
         use_cases = [(ascii ''Detecci'' @ [0xF3] @ ascii ''n temprana de degradaci'' @ [0xF3] @ ascii ''n de cobertura''), (ascii ''Identificaci'' @ [0xF3] @ ascii ''n de interferencias (PCI conflicts, RSI)''), (ascii ''Predicci'' @ [0xF3] @ ascii ''n de fallos de handover''), (ascii ''Alertas autom'' @ [0xE1] @ ascii ''ticas de congesti'' @ [0xF3] @ ascii ''n de red'')],
         benefits = [ascii ''Reduce MTTR (Mean Time To Repair) en 60%'', (ascii ''Detecta problemas 24-48h antes que m'' @ [0xE9] @ ascii ''todos tradicionales''), (ascii ''Automatiza el 70% de diagn'' @ [0xF3] @ ascii ''sticos de primer nivel'')],
         url = ascii ''https://www.kenmei.ai/solutions/ai-products/anomalies''
      \<rparr>,
      \<lparr>
         product_name = ascii ''Kenmei Geolocation - Virtual Drive Testing'',
         category = ascii ''AI Products'',
         prod_description = (ascii ''Convierte datos de usuarios reales en an'' @ [0xE1] @ ascii ''lisis geo-localizado de calidad de red. Elimina la necesidad de drive tests f'' @ [0xED] @ ascii ''sicos.''),
         use_cases = [(ascii ''Validaci'' @ [0xF3] @ ascii ''n de rollout 5G sin coste de drive testing''), ascii ''Mapas de calor de cobertura en tiempo real'', (ascii ''An'' @ [0xE1] @ ascii ''lisis de rutas (carreteras, ferrocarril, metro)''), (ascii ''Optimizaci'' @ [0xF3] @ ascii ''n de cobertura indoor'')],
         benefits = [ascii ''Reduce costes de drive testing en 80%'', ascii ''Cobertura 100x mayor que drive test manual'', ascii ''Datos actualizados continuamente vs snapshots''],
         url = ascii ''https://www.kenmei.ai/solutions/ai-products/geolocation''
      \<rparr>,
      \<lparr>
         product_name = ascii ''Kenmei Telco Fabric'',
         category = ascii ''Data Fabric'',
         prod_description = (ascii ''Unifica datos de radio, core y operaciones en una capa '' @ [0xFA] @ ascii ''nica query-ready. Elimina silos de datos entre vendors.''),
         use_cases = [(ascii ''Correlaci'' @ [0xF3] @ ascii ''n de eventos entre RAN y Core''), ascii ''Queries cross-vendor en segundos'', (ascii ''Dashboards unificados de KPIs multi-tecnolog'' @ [0xED] @ ascii ''a''), ascii ''Data lake telco con semantic layer''],
         benefits = [ascii ''Reduce tiempo de troubleshooting de horas a minutos'', (ascii ''Elimina 80% de trabajo manual de correlaci'' @ [0xF3] @ ascii ''n de logs''), ascii ''Habilita uso de AI sobre datos unificados''],
         url = ascii ''https://www.kenmei.ai/solutions/telco-fabric''
      \<rparr>,
      \<lparr>
         product_name = ascii ''Kenmei Interference Detection'',
         category = ascii ''AI Products'',
         prod_description = (ascii ''Detecta y diagnostica autom'' @ [0xE1] @ ascii ''ticamente interferencias en redes m'' @ [0xF3] @ ascii ''viles (PCI conflicts, inter-cell, external).''),
         use_cases = [(ascii ''Detecci'' @ [0xF3] @ ascii ''n de PCI conflicts en rollout 5G''), (ascii ''Identificaci'' @ [0xF3] @ ascii ''n de interferencias externas (radar, military)''), (ascii ''An'' @ [0xE1] @ ascii ''lisis de inter-cell interference''), (ascii ''Optimizaci'' @ [0xF3] @ ascii ''n autom'' @ [0xE1] @ ascii ''tica de neighbor lists'')],
         benefits = [(ascii ''Identifica >95% de interferencias autom'' @ [0xE1] @ ascii ''ticamente''), (ascii ''Recomienda acciones correctivas espec'' @ [0xED] @ ascii ''ficas''), (ascii ''Integra con Telco Fabric para an'' @ [0xE1] @ ascii ''lisis multi-capa'')],
         url = ascii ''https://www.kenmei.ai/solutions/ai-products/interference''
      \<rparr>
  ]"

definition SIMILAR_CASES_DB :: "similar_case list" where
  "SIMILAR_CASES_DB =
  [
      \<lparr>
         case_id = ascii ''CASE-5G-0782'',
         issue_description = (ascii ''P'' @ [0xE9] @ ascii ''rdida de cobertura 5G en zona urbana con fallback a 4G''),
         root_cause = (ascii ''PCI conflict entre dos sites cercanos debido a expansion de red. Overshooting de antena reci'' @ [0xE9] @ ascii ''n instalada''),
         solution_applied = (ascii ''Ajuste de tilt mec'' @ [0xE1] @ ascii ''nico de -2'' @ [0xB0] @ ascii '' en site VLC-002 sector 1 + reconfiguraci'' @ [0xF3] @ ascii ''n de PCI de 156 a 289. Optimizaci'' @ [0xF3] @ ascii ''n MLB para balanceo de carga.''),
         resolution_time_hours = (85 / 10),
         success_rate = (98 / 100),
         location_type = ascii ''urban''
      \<rparr>,
      \<lparr>
         case_id = ascii ''CASE-5G-0654'',
         issue_description = (ascii ''Fluctuaci'' @ [0xF3] @ ascii ''n constante de se'' @ [0xF1] @ ascii ''al 5G en pol'' @ [0xED] @ ascii ''gono industrial''),
         root_cause = (ascii ''Interferencia externa de radar meteorol'' @ [0xF3] @ ascii ''gico en banda n78 (3.5 GHz). Kenmei Interference Detection identific'' @ [0xF3] @ ascii '' patr'' @ [0xF3] @ ascii ''n peri'' @ [0xF3] @ ascii ''dico cada 12 segundos.''),
         solution_applied = (ascii ''Reconfiguraci'' @ [0xF3] @ ascii ''n de carrier aggregation para evitar frecuencias afectadas. Activaci'' @ [0xF3] @ ascii ''n de filtrado adaptativo. Escalado a autoridad de telecomunicaciones para coordinaci'' @ [0xF3] @ ascii ''n de frecuencias.''),
         resolution_time_hours = (720 / 10),
         success_rate = (92 / 100),
         location_type = ascii ''industrial''
      \<rparr>,
      \<lparr>
         case_id = ascii ''CASE-4G-1023'',
         issue_description = (ascii ''Baja velocidad de datos en autov'' @ [0xED] @ ascii ''a, calls OK pero datos lentos''),
         root_cause = (ascii ''Congesti'' @ [0xF3] @ ascii ''n de backhaul en site A3-KM280. Saturaci'' @ [0xF3] @ ascii ''n de enlace microwave en horas pico (95% utilizaci'' @ [0xF3] @ ascii ''n). Kenmei AI detect'' @ [0xF3] @ ascii '' patr'' @ [0xF3] @ ascii ''n de degradaci'' @ [0xF3] @ ascii ''n gradual.''),
         solution_applied = (ascii ''Upgrade de backhaul de 1 Gbps a 10 Gbps fiber. Implementaci'' @ [0xF3] @ ascii ''n de QoS en S1 interface. Activaci'' @ [0xF3] @ ascii ''n de carrier aggregation para offload a banda adicional.''),
         resolution_time_hours = (1200 / 10),
         success_rate = (10 / 10),
         location_type = ascii ''highway''
      \<rparr>,
      \<lparr>
         case_id = ascii ''CASE-VLT-0445'',
         issue_description = (ascii ''Llamadas ca'' @ [0xED] @ ascii ''das en metro/t'' @ [0xFA] @ ascii ''neles''),
         root_cause = (ascii ''Handover failure entre outdoor macro cell y indoor DAS system. Misconfiguration en A3 event offset. Kenmei detect'' @ [0xF3] @ ascii '' RLF rate >15%.''),
         solution_applied = (ascii ''Optimizaci'' @ [0xF3] @ ascii ''n de neighbor list, ajuste de A3 offset de 3dB a 1dB, configuraci'' @ [0xF3] @ ascii ''n de TTT (Time To Trigger) de 320ms a 160ms. Activaci'' @ [0xF3] @ ascii ''n de CS Fallback optimization.''),
         resolution_time_hours = (120 / 10),
         success_rate = (95 / 100),
         location_type = ascii ''underground''
      \<rparr>
  ]"

definition frozen_clock :: clock where
  "frozen_clock k = 0"

section \<open>Built-in operations the handlers use\<close>

text \<open>
  \<open>xs.sort(key=key, reverse=True)\<close>: Python's sort is stable, and with \<open>reverse=True\<close> the
  elements are ordered as if every comparison were reversed, equal keys keeping their
  original order. The model inserts from the right, each element in front of the first one
  whose key is not larger.
\<close>

fun insort_reverse :: "('a \<Rightarrow> 'k::linorder) \<Rightarrow> 'a \<Rightarrow> 'a list \<Rightarrow> 'a list" where
  "insort_reverse key x [] = [x]"
| "insort_reverse key x (y # ys) =
     (if key y \<le> key x then x # y # ys else y # insort_reverse key x ys)"

fun sort_reverse :: "('a \<Rightarrow> 'k::linorder) \<Rightarrow> 'a list \<Rightarrow> 'a list" where
  "sort_reverse key [] = []"
| "sort_reverse key (x # xs) = insort_reverse key x (sort_reverse key xs)"

section \<open>Query handlers\<close>

text \<open>\<open>GET /network/sites\<close>. The only handler with a \<open>raise\<close>.\<close>

definition get_cell_sites :: "pystr \<Rightarrow> http_error + cell_site list" where
  "get_cell_sites loc =
     (let location_key = lower loc in
      case map_of CELL_SITES_DB location_key of
        None \<Rightarrow>
          Inl (HTTPException 404
                (ascii ''No cell sites found for location: '' @ loc @ ascii ''. Available: ''
                   @ repr_list (map fst CELL_SITES_DB)))
      | Some bucket \<Rightarrow> Inr bucket)"

text \<open>\<open>GET /network/incidents\<close>: two optional filters, applied one after the other.\<close>

definition location_filter :: "pystr option \<Rightarrow> incident list \<Rightarrow> incident list" where
  "location_filter loc incidents =
     (case given loc of
        Some l \<Rightarrow> filter (\<lambda>inc. is_substr (lower l) (lower (affected_area inc))) incidents
      | None \<Rightarrow> incidents)"

definition severity_filter :: "pystr option \<Rightarrow> incident list \<Rightarrow> incident list" where
  "severity_filter sev incidents =
     (case given sev of
        Some s \<Rightarrow> filter (\<lambda>inc. severity inc = lower s) incidents
      | None \<Rightarrow> incidents)"

definition get_active_incidents :: "clock \<Rightarrow> pystr option \<Rightarrow> pystr option \<Rightarrow> incident list" where
  "get_active_incidents clk loc sev =
     (let incidents = ACTIVE_INCIDENTS_DB clk;
          incidents = location_filter loc incidents;
          incidents = severity_filter sev incidents
      in incidents)"

text \<open>The same two filters in the other order, for comparison with the handler.\<close>

definition incidents_severity_first :: "clock \<Rightarrow> pystr option \<Rightarrow> pystr option \<Rightarrow> incident list" where
  "incidents_severity_first clk loc sev =
     location_filter loc (severity_filter sev (ACTIVE_INCIDENTS_DB clk))"

text \<open>\<open>GET /network/maintenance\<close>. \<open>now\<close> is the reading of \<open>datetime.now()\<close> the handler
  takes when \<open>active_only\<close> is set.\<close>

definition is_active :: "datetime \<Rightarrow> maintenance \<Rightarrow> bool" where
  "is_active now m = (scheduled_start m \<le> now \<and> now \<le> scheduled_end m)"

definition get_scheduled_maintenance :: "clock \<Rightarrow> bool \<Rightarrow> datetime \<Rightarrow> maintenance list" where
  "get_scheduled_maintenance clk active_only now =
     (let maint = SCHEDULED_MAINTENANCE_DB clk in
      if active_only then filter (is_active now) maint else maint)"

text \<open>\<open>GET /solutions/products\<close>.\<close>

definition get_kenmei_products :: "pystr option \<Rightarrow> product list" where
  "get_kenmei_products cat =
     (let products = KENMEI_PRODUCTS_DB in
      case given cat of
        Some c \<Rightarrow> filter (\<lambda>p. is_substr (lower c) (lower (category p))) products
      | None \<Rightarrow> products)"

text \<open>\<open>GET /solutions/cases\<close>.\<close>

definition get_similar_cases :: "pystr option \<Rightarrow> similar_case list" where
  "get_similar_cases lt =
     (let cases = SIMILAR_CASES_DB;
          cases = (case given lt of
                     Some l \<Rightarrow> filter (\<lambda>c. location_type c = lower l) cases
                   | None \<Rightarrow> cases)
      in sort_reverse success_rate cases)"

section \<open>The diagnostic aggregator\<close>

text \<open>
  The loop over the keys of the site table, \<open>cell_sites\<close> being the list it extends. The
  keys of the table are distinct, so \<open>CELL_SITES_DB[key]\<close> inside the loop is the bucket
  listed with the key.
\<close>

fun sites_loop :: "(pystr \<times> cell_site list) list \<Rightarrow> pystr \<Rightarrow> cell_site list \<Rightarrow> cell_site list" where
  "sites_loop [] location_key cell_sites = cell_sites"
| "sites_loop ((key, bucket) # rest) location_key cell_sites =
     sites_loop rest location_key
       (if is_substr key location_key \<or> is_substr location_key key
        then cell_sites @ bucket else cell_sites)"

text \<open>The location type: \<open>urban\<close> unless one of the \<open>if\<close>/\<open>elif\<close> branches assigns another.\<close>

definition classify_location :: "pystr \<Rightarrow> pystr" where
  "classify_location location_key =
     (let lt = ascii ''urban'' in
      if is_substr (ascii ''poligono'') location_key \<or> is_substr (ascii ''industrial'') location_key
      then ascii ''industrial''
      else if is_substr (ascii ''autovia'') location_key \<or> is_substr (ascii ''carretera'') location_key
      then ascii ''highway''
      else if is_substr (ascii ''metro'') location_key \<or> is_substr (ascii ''tunel'') location_key
      then ascii ''underground''
      else lt)"

definition matched_cases :: "pystr \<Rightarrow> similar_case list" where
  "matched_cases lt =
     sort_reverse success_rate (filter (\<lambda>c. location_type c = lt) SIMILAR_CASES_DB)"

text \<open>The product rules. The table has four entries, so the indices 3, 1 and 0 are in range.\<close>

definition recommend :: "pystr \<Rightarrow> pystr list \<Rightarrow> product list" where
  "recommend issue syms =
     (let products = [];
          issue_lower = lower issue;
          products =
            (if is_substr (ascii ''interference'') issue_lower
                \<or> is_substr (ascii ''signal'') (lower (join (ascii '' '') syms))
             then products @ [KENMEI_PRODUCTS_DB ! 3] else products);
          products =
            (if is_substr (ascii ''coverage'') issue_lower \<or> is_substr (ascii ''cobertura'') issue_lower
             then products @ [KENMEI_PRODUCTS_DB ! 1] else products)
      in products @ [KENMEI_PRODUCTS_DB ! 0])"

text \<open>The lines of the narrative.\<close>

definition sites_line :: "cell_site list \<Rightarrow> pystr" where
  "sites_line cell_sites =
     ascii ''Hay '' @ str_nat (length cell_sites) @ ascii '' sites en el '' @ [0xE1] @ ascii ''rea: ''
       @ join (ascii '', '') (map site_id cell_sites)"

definition alert_line :: "incident list \<Rightarrow> pystr" where
  "alert_line incidents =
     [0x26A0] @ [0xFE0F] @ ascii '' ALERTA: Hay '' @ str_nat (length incidents)
       @ ascii '' incidencias activas en la zona''"

definition incident_line :: "incident \<Rightarrow> pystr" where
  "incident_line inc =
     ascii ''  - '' @ incident_id inc @ ascii '': '' @ take 150 (inc_description inc) @ ascii ''...''"

definition maintenance_line :: pystr where
  "maintenance_line =
     [0x1F527] @ ascii '' Hay mantenimiento programado activo que puede estar afectando''"

definition cases_line :: "similar_case list \<Rightarrow> pystr" where
  "cases_line cases =
     [0x1F4DA] @ ascii '' Se encontraron '' @ str_nat (length cases)
       @ ascii '' casos similares resueltos con '' @ [0xE9] @ ascii ''xito''"

definition no_context :: pystr where
  "no_context = ascii ''No hay contexto adicional disponible''"

definition context_parts ::
  "cell_site list \<Rightarrow> incident list \<Rightarrow> maintenance list \<Rightarrow> similar_case list \<Rightarrow> pystr list" where
  "context_parts cell_sites incidents maint cases =
     (let parts = [];
          parts = (if cell_sites \<noteq> [] then parts @ [sites_line cell_sites] else parts);
          parts = (if incidents \<noteq> []
                   then (parts @ [alert_line incidents]) @ map incident_line incidents
                   else parts);
          parts = (if maint \<noteq> [] then parts @ [maintenance_line] else parts);
          parts = (if cases \<noteq> [] then parts @ [cases_line cases] else parts)
      in parts)"

text \<open>\<open>POST /diagnostics/analyze\<close>. \<open>now\<close> is the handler's one reading of \<open>datetime.now()\<close>.\<close>

definition analyze_diagnostic :: "clock \<Rightarrow> datetime \<Rightarrow> diagnostic_request \<Rightarrow> diagnostic_response" where
  "analyze_diagnostic clk now request =
     (let location_key = lower (location request);
          cell_sites = sites_loop CELL_SITES_DB location_key [];
          incidents = filter (\<lambda>inc. is_substr location_key (lower (affected_area inc)))
                        (ACTIVE_INCIDENTS_DB clk);
          maint = filter (is_active now) (SCHEDULED_MAINTENANCE_DB clk);
          cases = matched_cases (classify_location location_key);
          products = recommend (issue_type request) (symptoms request);
          parts = context_parts cell_sites incidents maint cases;
          context = (if parts \<noteq> [] then join [0xA] parts else no_context)
      in \<lparr> context_found = (length cell_sites > 0 \<or> length incidents > 0),
           cell_sites_nearby = cell_sites,
           active_incidents = incidents,
           scheduled_maintenance = maint,
           similar_cases = take 3 cases,
           recommended_products = products,
           additional_context = context \<rparr>)"

text \<open>Requests used as concrete inputs.\<close>

definition downtown_request :: diagnostic_request where
  "downtown_request =
     \<lparr> location = ascii ''downtown valencia'', issue_type = ascii ''coverage'',
       symptoms = [ascii ''signal drop''], network_technology = None \<rparr>"

definition nowhere_request :: diagnostic_request where
  "nowhere_request =
     \<lparr> location = ascii ''Poligono Metro'', issue_type = ascii ''speed'',
       symptoms = [], network_technology = None \<rparr>"

section \<open>The selections the specification describes\<close>

text \<open>
  Two definitions that follow the specification's words, to compare the handlers with. The
  case query: the cases whose location type equals the filter regardless of case, all cases
  when the filter is absent.
\<close>

definition cases_matching :: "pystr option \<Rightarrow> similar_case list" where
  "cases_matching lt =
     (case lt of
        None \<Rightarrow> SIMILAR_CASES_DB
      | Some l \<Rightarrow> filter (\<lambda>c. lower (location_type c) = lower l) SIMILAR_CASES_DB)"

text \<open>
  The incident query: the incidents whose affected area contains the location regardless of
  case and whose severity equals the given one regardless of case, an absent filter passing
  every incident; in catalog order.
\<close>

definition incidents_matching :: "clock \<Rightarrow> pystr option \<Rightarrow> pystr option \<Rightarrow> incident list" where
  "incidents_matching clk loc sev =
     filter (\<lambda>inc. (case loc of None \<Rightarrow> True
                      | Some l \<Rightarrow> is_substr (lower l) (lower (affected_area inc)))
                  \<and> (case sev of None \<Rightarrow> True
                      | Some s \<Rightarrow> lower (severity inc) = lower s))
       (ACTIVE_INCIDENTS_DB clk)"

section \<open>Facts about strings and the built-in operations\<close>

lemmas str_eval = ascii_def lower_def lower_cp_def

text \<open>\<open>is_substr\<close> is Python's \<open>in\<close>: the first string occurs somewhere inside the second.\<close>

lemma is_substr_iff: "is_substr a b \<longleftrightarrow> (\<exists>p s. b = p @ a @ s)"
proof (induction b)
  case Nil
  show ?case by simp
next
  case (Cons c cs)
  have "(\<exists>p s. c # cs = p @ a @ s) \<longleftrightarrow> prefix a (c # cs) \<or> (\<exists>p s. cs = p @ a @ s)"
  proof
    assume "\<exists>p s. c # cs = p @ a @ s"
    then obtain p s where ps: "c # cs = p @ a @ s" by blast
    show "prefix a (c # cs) \<or> (\<exists>p s. cs = p @ a @ s)"
    proof (cases p)
      case Nil
      with ps show ?thesis by (simp add: prefix_def)
    next
      case (Cons d p')
      with ps have "cs = p' @ a @ s" by simp
      then show ?thesis by blast
    qed
  next
    assume "prefix a (c # cs) \<or> (\<exists>p s. cs = p @ a @ s)"
    then show "\<exists>p s. c # cs = p @ a @ s"
    proof
      assume "prefix a (c # cs)"
      then obtain s where "c # cs = a @ s" by (auto simp: prefix_def)
      then have "c # cs = [] @ a @ s" by simp
      then show ?thesis by blast
    next
      assume "\<exists>p s. cs = p @ a @ s"
      then obtain p s where "cs = p @ a @ s" by blast
      then have "c # cs = (c # p) @ a @ s" by simp
      then show ?thesis by blast
    qed
  qed
  with Cons show ?case by simp
qed

section \<open>Site resolution of the aggregator\<close>

lemma sites_loop_concat:
  "sites_loop db k acc =
     acc @ concat (map snd (filter (\<lambda>(key, bucket). is_substr key k \<or> is_substr k key) db))"
  by (induction db k acc rule: sites_loop.induct) simp_all

lemma bucket_owner_unique:
  "distinct (concat (map snd db)) \<Longrightarrow> p \<in> set db \<Longrightarrow> q \<in> set db
     \<Longrightarrow> s \<in> set (snd p) \<Longrightarrow> s \<in> set (snd q) \<Longrightarrow> p = q"
  by (induction db) auto

lemma bucket_included_iff:
  assumes d: "distinct (concat (map snd db))" and m: "(k, b) \<in> set db" and ne: "b \<noteq> []"
  shows "(set b \<subseteq> set (concat (map snd (filter P db)))) = P (k, b)"
proof
  assume sub: "set b \<subseteq> set (concat (map snd (filter P db)))"
  from ne obtain s where s: "s \<in> set b" by (cases b) auto
  with sub obtain q where q: "q \<in> set db" "P q" "s \<in> set (snd q)" by auto
  from bucket_owner_unique [OF d m q(1)] s q(3) have "(k, b) = q" by simp
  with q(2) show "P (k, b)" by simp
next
  assume "P (k, b)"
  with m show "set b \<subseteq> set (concat (map snd (filter P db)))" by force
qed

lemma site_ids: "map site_id (concat (map snd CELL_SITES_DB)) =
  [ascii ''VLC-001'', ascii ''VLC-002'', ascii ''VLC-003'', ascii ''PTR-001'', ascii ''PTR-002'',
   ascii ''MAD-A3-280'', ascii ''BCN-M01'']"
  by (simp add: CELL_SITES_DB_def)

lemma distinct_sites: "distinct (concat (map snd CELL_SITES_DB))"
proof -
  have "distinct (map site_id (concat (map snd CELL_SITES_DB)))"
    unfolding site_ids by (simp add: ascii_def)
  then show ?thesis by (simp add: distinct_map)
qed

lemma bucket_keys: "map fst CELL_SITES_DB =
  [ascii ''valencia'', ascii ''paterna'', ascii ''madrid'', ascii ''barcelona'']"
  by (simp add: CELL_SITES_DB_def)

lemma bucket_keys_lower: "(k, b) \<in> set CELL_SITES_DB \<Longrightarrow> lower k = k"
proof -
  assume "(k, b) \<in> set CELL_SITES_DB"
  then have "k \<in> set (map fst CELL_SITES_DB)" by force
  then show ?thesis unfolding bucket_keys by (auto simp: str_eval)
qed

lemma buckets_nonempty: "(k, b) \<in> set CELL_SITES_DB \<Longrightarrow> b \<noteq> []"
proof -
  assume "(k, b) \<in> set CELL_SITES_DB"
  then have "b \<in> set (map snd CELL_SITES_DB)" by force
  moreover have "[] \<notin> set (map snd CELL_SITES_DB)" by (simp add: CELL_SITES_DB_def)
  ultimately show ?thesis by metis
qed

lemma cell_sites_nearby_eq:
  "cell_sites_nearby (analyze_diagnostic clk now request) =
     sites_loop CELL_SITES_DB (lower (location request)) []"
  by (simp add: analyze_diagnostic_def Let_def)

text \<open>
  Claim C1. For every request, \<open>cell_sites_nearby\<close> is the concatenation, in table order, of
  the buckets whose lowered key occurs in the lowered request location or in whose key the
  lowered request location occurs; and a bucket of the table has its sites in the result
  exactly when its key passes this two-way test.
\<close>

theorem site_resolution_bidirectional:
  "cell_sites_nearby (analyze_diagnostic clk now request) =
     concat (map snd (filter
       (\<lambda>(key, bucket). is_substr (lower key) (lower (location request))
                          \<or> is_substr (lower (location request)) key)
       CELL_SITES_DB))
   \<and> (\<forall>(key, bucket) \<in> set CELL_SITES_DB.
        (set bucket \<subseteq> set (cell_sites_nearby (analyze_diagnostic clk now request)))
          = (is_substr (lower key) (lower (location request))
              \<or> is_substr (lower (location request)) key))"
proof -
  let ?k = "lower (location request)"
  let ?P = "\<lambda>(key, bucket). is_substr key ?k \<or> is_substr ?k key"
  let ?Q = "\<lambda>(key, bucket). is_substr (lower key) ?k \<or> is_substr ?k key"
  have PQ: "filter ?Q CELL_SITES_DB = filter ?P CELL_SITES_DB"
    by (rule filter_cong) (auto simp: bucket_keys_lower)
  have eq: "cell_sites_nearby (analyze_diagnostic clk now request) =
      concat (map snd (filter ?P CELL_SITES_DB))"
    by (simp add: cell_sites_nearby_eq sites_loop_concat)
  have incl: "(set b \<subseteq> set (concat (map snd (filter ?P CELL_SITES_DB))))
                = (is_substr (lower k) ?k \<or> is_substr ?k k)"
    if "(k, b) \<in> set CELL_SITES_DB" for k b
    using bucket_included_iff [OF distinct_sites that buckets_nonempty [OF that], of ?P]
      bucket_keys_lower [OF that] by simp
  show ?thesis
    unfolding eq PQ using incl by auto
qed

text \<open>The request for \<open>downtown valencia\<close> gets the \<open>valencia\<close> bucket, and only that one.\<close>

theorem site_resolution_bidirectional_witness:
  "hd CELL_SITES_DB \<in> set CELL_SITES_DB
   \<and> fst (hd CELL_SITES_DB) = ascii ''valencia''
   \<and> set (snd (hd CELL_SITES_DB))
        \<subseteq> set (cell_sites_nearby (analyze_diagnostic frozen_clock 0 downtown_request))
   \<and> map site_id (cell_sites_nearby (analyze_diagnostic frozen_clock 0 downtown_request))
        = [ascii ''VLC-001'', ascii ''VLC-002'', ascii ''VLC-003'']"
  using site_resolution_bidirectional [of frozen_clock 0 downtown_request]
  by (simp add: CELL_SITES_DB_def downtown_request_def str_eval)

section \<open>Location-type classification\<close>

text \<open>
  Claim C4. The location type of a request is \<open>classify_location\<close> of the lowered location
  (the cases of the response are those matched for it), and the classification goes by the
  first rule that fires, in this order: \<open>poligono\<close> or \<open>industrial\<close> gives \<open>industrial\<close>;
  else \<open>autovia\<close> or \<open>carretera\<close> gives \<open>highway\<close>; else \<open>metro\<close> or \<open>tunel\<close> gives
  \<open>underground\<close>; else \<open>urban\<close>. A location with both \<open>poligono\<close> and \<open>metro\<close> is
  \<open>industrial\<close>.
\<close>

theorem classification_first_match:
  "similar_cases (analyze_diagnostic clk now request)
     = take 3 (matched_cases (classify_location (lower (location request))))
   \<and> (is_substr (ascii ''poligono'') k \<or> is_substr (ascii ''industrial'') k
        \<longrightarrow> classify_location k = ascii ''industrial'')
   \<and> (\<not> (is_substr (ascii ''poligono'') k \<or> is_substr (ascii ''industrial'') k)
        \<and> (is_substr (ascii ''autovia'') k \<or> is_substr (ascii ''carretera'') k)
        \<longrightarrow> classify_location k = ascii ''highway'')
   \<and> (\<not> (is_substr (ascii ''poligono'') k \<or> is_substr (ascii ''industrial'') k)
        \<and> \<not> (is_substr (ascii ''autovia'') k \<or> is_substr (ascii ''carretera'') k)
        \<and> (is_substr (ascii ''metro'') k \<or> is_substr (ascii ''tunel'') k)
        \<longrightarrow> classify_location k = ascii ''underground'')
   \<and> (\<not> (is_substr (ascii ''poligono'') k \<or> is_substr (ascii ''industrial'') k)
        \<and> \<not> (is_substr (ascii ''autovia'') k \<or> is_substr (ascii ''carretera'') k)
        \<and> \<not> (is_substr (ascii ''metro'') k \<or> is_substr (ascii ''tunel'') k)
        \<longrightarrow> classify_location k = ascii ''urban'')
   \<and> (is_substr (ascii ''poligono'') k \<and> is_substr (ascii ''metro'') k
        \<longrightarrow> classify_location k = ascii ''industrial'')"
  by (simp add: classify_location_def analyze_diagnostic_def Let_def)

text \<open>
  \<open>Poligono Metro\<close>, lowered, contains both keywords and is classified \<open>industrial\<close>.
\<close>

theorem classification_first_match_witness:
  "is_substr (ascii ''poligono'') (lower (ascii ''Poligono Metro''))
   \<and> is_substr (ascii ''metro'') (lower (ascii ''Poligono Metro''))
   \<and> classify_location (lower (ascii ''Poligono Metro'')) = ascii ''industrial''"
proof -
  have p: "is_substr (ascii ''poligono'') (lower (ascii ''Poligono Metro''))"
    by (simp add: str_eval)
  have m: "is_substr (ascii ''metro'') (lower (ascii ''Poligono Metro''))"
    by (simp add: str_eval)
  from classification_first_match [of frozen_clock 0 nowhere_request "lower (ascii ''Poligono Metro'')"]
    p m show ?thesis by blast
qed

section \<open>Incident filters\<close>

lemma filters_commute:
  "severity_filter sev (location_filter loc xs) = location_filter loc (severity_filter sev xs)"
proof (cases "given loc")
  case None
  then show ?thesis by (simp add: location_filter_def)
next
  case l: (Some l)
  show ?thesis
  proof (cases "given sev")
    case None
    then show ?thesis by (simp add: severity_filter_def)
  next
    case (Some s)
    with l show ?thesis
      by (simp add: severity_filter_def location_filter_def conj_commute)
  qed
qed

text \<open>
  Claim C10. The incident query, which filters by location and then by severity, returns the
  same list as the two filters applied in the other order; the two filters commute on every
  list of incidents.
\<close>

theorem incident_filters_commute:
  "get_active_incidents clk loc sev = incidents_severity_first clk loc sev
   \<and> severity_filter sev (location_filter loc xs) = location_filter loc (severity_filter sev xs)"
  by (simp add: get_active_incidents_def incidents_severity_first_def Let_def filters_commute)

lemma incident_fields:
  "map (\<lambda>inc. (incident_id inc, affected_area inc, severity inc)) (ACTIVE_INCIDENTS_DB clk) =
     [(ascii ''INC-2024-1142'', ascii ''Valencia Centro - Plaza Ayuntamiento'', ascii ''high''),
      (ascii ''INC-2024-1138'',
       ascii ''Paterna - Pol'' @ [0xED] @ ascii ''gono Industrial Vara de Quart'', ascii ''medium'')]"
  by (simp add: ACTIVE_INCIDENTS_DB_def)

text \<open>
  Severity first and location second, on \<open>VALENCIA\<close> and \<open>High\<close>: the one incident the
  handler returns.
\<close>

theorem incident_filters_commute_witness:
  "map incident_id
     (incidents_severity_first frozen_clock (Some (ascii ''VALENCIA'')) (Some (ascii ''High'')))
     = [ascii ''INC-2024-1142'']"
proof -
  have g: "map incident_id
      (get_active_incidents frozen_clock (Some (ascii ''VALENCIA'')) (Some (ascii ''High'')))
      = [ascii ''INC-2024-1142'']"
    by (simp add: get_active_incidents_def location_filter_def severity_filter_def
          ACTIVE_INCIDENTS_DB_def str_eval)
  from incident_filters_commute
         [of frozen_clock "Some (ascii ''VALENCIA'')" "Some (ascii ''High'')" "[]"]
  have "incidents_severity_first frozen_clock (Some (ascii ''VALENCIA'')) (Some (ascii ''High''))
      = get_active_incidents frozen_clock (Some (ascii ''VALENCIA'')) (Some (ascii ''High''))"
    by simp
  with g show ?thesis by simp
qed

section \<open>Maintenance\<close>

lemma maintenance_frozen:
  "filter (is_active 0) (SCHEDULED_MAINTENANCE_DB frozen_clock) = SCHEDULED_MAINTENANCE_DB frozen_clock"
  by (simp add: SCHEDULED_MAINTENANCE_DB_def is_active_def frozen_clock_def hours_def)

text \<open>
  Claim C2 as stated asks for a strict subset at every evaluation time. At a call inside the
  window of the one catalog entry (here: the clock did not move since the module was loaded)
  \<open>active_only=true\<close> returns the whole catalog, which is not a strict subset of itself.
\<close>

theorem maintenance_strict_subset_counterexample:
  "\<not> (set (get_scheduled_maintenance frozen_clock True 0)
        \<subset> set (get_scheduled_maintenance frozen_clock False 0))"
  by (simp add: get_scheduled_maintenance_def maintenance_frozen)

text \<open>
  Claim C2, amended. For every evaluation time the result for \<open>active_only=true\<close> is a
  sublist of the result for \<open>active_only=false\<close>, hence a subset, and a strict one exactly
  when some catalog window is not active at that time; it holds exactly the catalog windows
  with \<open>scheduled_start \<le> now \<le> scheduled_end\<close>; and \<open>active_only=false\<close> returns the whole
  catalog.
\<close>

theorem maintenance_active_only_subset:
  "subseq (get_scheduled_maintenance clk True now) (get_scheduled_maintenance clk False now)
   \<and> set (get_scheduled_maintenance clk True now) \<subseteq> set (get_scheduled_maintenance clk False now)
   \<and> (set (get_scheduled_maintenance clk True now) \<subset> set (get_scheduled_maintenance clk False now))
       = (\<exists>m \<in> set (SCHEDULED_MAINTENANCE_DB clk). \<not> (scheduled_start m \<le> now \<and> now \<le> scheduled_end m))
   \<and> (\<forall>m \<in> set (get_scheduled_maintenance clk True now).
         scheduled_start m \<le> now \<and> now \<le> scheduled_end m)
   \<and> (\<forall>m \<in> set (SCHEDULED_MAINTENANCE_DB clk).
         scheduled_start m \<le> now \<and> now \<le> scheduled_end m
           \<longrightarrow> m \<in> set (get_scheduled_maintenance clk True now))
   \<and> get_scheduled_maintenance clk False now = SCHEDULED_MAINTENANCE_DB clk"
  by (auto simp: get_scheduled_maintenance_def is_active_def)

text \<open>
  With the clock at the load time the window is active and returned; five hours later it is
  over, and only \<open>active_only=false\<close> still returns it.
\<close>

theorem maintenance_active_only_subset_witness:
  "get_scheduled_maintenance frozen_clock True 0 \<noteq> []
   \<and> hd (get_scheduled_maintenance frozen_clock True 0) \<in> set (get_scheduled_maintenance frozen_clock True 0)
   \<and> scheduled_start (hd (get_scheduled_maintenance frozen_clock True 0)) \<le> 0
   \<and> 0 \<le> scheduled_end (hd (get_scheduled_maintenance frozen_clock True 0))
   \<and> get_scheduled_maintenance frozen_clock False (hours 5) = SCHEDULED_MAINTENANCE_DB frozen_clock
   \<and> get_scheduled_maintenance frozen_clock True (hours 5) = []"
proof -
  have "SCHEDULED_MAINTENANCE_DB frozen_clock \<noteq> []"
    by (simp add: SCHEDULED_MAINTENANCE_DB_def)
  then have ne: "get_scheduled_maintenance frozen_clock True 0 \<noteq> []"
    by (simp add: get_scheduled_maintenance_def maintenance_frozen)
  then have "hd (get_scheduled_maintenance frozen_clock True 0)
      \<in> set (get_scheduled_maintenance frozen_clock True 0)" by simp
  moreover have "get_scheduled_maintenance frozen_clock True (hours 5) = []"
    by (simp add: get_scheduled_maintenance_def SCHEDULED_MAINTENANCE_DB_def is_active_def
          frozen_clock_def hours_def)
  ultimately show ?thesis
    using ne maintenance_active_only_subset [of frozen_clock 0]
      maintenance_active_only_subset [of frozen_clock "hours 5"] by blast
qed

section \<open>Product recommendation\<close>

lemma product_names:
  "map product_name KENMEI_PRODUCTS_DB =
     [ascii ''Kenmei AI Agents - Anomaly Detection'',
      ascii ''Kenmei Geolocation - Virtual Drive Testing'',
      ascii ''Kenmei Telco Fabric'',
      ascii ''Kenmei Interference Detection'']"
  by (simp add: KENMEI_PRODUCTS_DB_def)

lemma products_length: "length KENMEI_PRODUCTS_DB = 4"
  using arg_cong [OF product_names, of length] by simp

lemma product_name_nth:
  "product_name (KENMEI_PRODUCTS_DB ! 0) = ascii ''Kenmei AI Agents - Anomaly Detection''"
  "product_name (KENMEI_PRODUCTS_DB ! 1) = ascii ''Kenmei Geolocation - Virtual Drive Testing''"
  "product_name (KENMEI_PRODUCTS_DB ! 3) = ascii ''Kenmei Interference Detection''"
proof -
  have n: "product_name (KENMEI_PRODUCTS_DB ! i) = map product_name KENMEI_PRODUCTS_DB ! i"
    if "i < 4" for i using that by (simp add: products_length)
  show "product_name (KENMEI_PRODUCTS_DB ! 0) = ascii ''Kenmei AI Agents - Anomaly Detection''"
    by (simp add: n product_names)
  show "product_name (KENMEI_PRODUCTS_DB ! 1) = ascii ''Kenmei Geolocation - Virtual Drive Testing''"
    by (simp add: n product_names)
  show "product_name (KENMEI_PRODUCTS_DB ! 3) = ascii ''Kenmei Interference Detection''"
    by (simp add: n product_names)
qed

lemma products_differ:
  "KENMEI_PRODUCTS_DB ! 3 \<noteq> KENMEI_PRODUCTS_DB ! 1"
  "KENMEI_PRODUCTS_DB ! 3 \<noteq> KENMEI_PRODUCTS_DB ! 0"
  "KENMEI_PRODUCTS_DB ! 1 \<noteq> KENMEI_PRODUCTS_DB ! 0"
proof -
  have "product_name (KENMEI_PRODUCTS_DB ! 3) \<noteq> product_name (KENMEI_PRODUCTS_DB ! 1)"
    unfolding product_name_nth by (simp add: ascii_def)
  then show "KENMEI_PRODUCTS_DB ! 3 \<noteq> KENMEI_PRODUCTS_DB ! 1" by metis
  have "product_name (KENMEI_PRODUCTS_DB ! 3) \<noteq> product_name (KENMEI_PRODUCTS_DB ! 0)"
    unfolding product_name_nth by (simp add: ascii_def)
  then show "KENMEI_PRODUCTS_DB ! 3 \<noteq> KENMEI_PRODUCTS_DB ! 0" by metis
  have "product_name (KENMEI_PRODUCTS_DB ! 1) \<noteq> product_name (KENMEI_PRODUCTS_DB ! 0)"
    unfolding product_name_nth by (simp add: ascii_def)
  then show "KENMEI_PRODUCTS_DB ! 1 \<noteq> KENMEI_PRODUCTS_DB ! 0" by metis
qed

lemma recommend_distinct: "distinct (recommend issue syms)"
  by (simp add: recommend_def Let_def products_differ products_differ [symmetric] del: One_nat_def)

lemma recommended_products_eq:
  "recommended_products (analyze_diagnostic clk now request)
     = recommend (issue_type request) (symptoms request)"
  by (simp add: analyze_diagnostic_def Let_def)

text \<open>
  Claim C3 as stated ends with: for some input the list contains duplicate entries. No request
  has such a list: each rule appends one entry, once, and the three entries are different
  products.
\<close>

theorem recommended_products_duplicates_counterexample:
  "\<not> (\<exists>clk now request. \<not> distinct (recommended_products (analyze_diagnostic clk now request)))"
  by (simp add: recommended_products_eq recommend_distinct)

text \<open>
  Claim C3, amended. The recommended products are built by three rules in a fixed order:
  the Interference-Detection product (entry 3 of the table) if the lowered issue type contains
  \<open>interference\<close> or the symptoms, joined by spaces and lowered, contain \<open>signal\<close>; then the
  Geolocation product (entry 1) if the lowered issue type contains \<open>coverage\<close> or
  \<open>cobertura\<close>; then always the Anomaly-Detection product (entry 0). Nothing is de-duplicated,
  and nothing needs to be: the list never has a duplicate.
\<close>

theorem recommended_products_rules:
  "recommended_products (analyze_diagnostic clk now request) =
     (if is_substr (ascii ''interference'') (lower (issue_type request))
         \<or> is_substr (ascii ''signal'') (lower (join (ascii '' '') (symptoms request)))
      then [KENMEI_PRODUCTS_DB ! 3] else [])
     @ (if is_substr (ascii ''coverage'') (lower (issue_type request))
           \<or> is_substr (ascii ''cobertura'') (lower (issue_type request))
        then [KENMEI_PRODUCTS_DB ! 1] else [])
     @ [KENMEI_PRODUCTS_DB ! 0]
   \<and> product_name (KENMEI_PRODUCTS_DB ! 3) = ascii ''Kenmei Interference Detection''
   \<and> product_name (KENMEI_PRODUCTS_DB ! 1) = ascii ''Kenmei Geolocation - Virtual Drive Testing''
   \<and> product_name (KENMEI_PRODUCTS_DB ! 0) = ascii ''Kenmei AI Agents - Anomaly Detection''
   \<and> length KENMEI_PRODUCTS_DB = 4
   \<and> distinct (recommended_products (analyze_diagnostic clk now request))"
proof -
  have "recommended_products (analyze_diagnostic clk now request) =
     (if is_substr (ascii ''interference'') (lower (issue_type request))
         \<or> is_substr (ascii ''signal'') (lower (join (ascii '' '') (symptoms request)))
      then [KENMEI_PRODUCTS_DB ! 3] else [])
     @ (if is_substr (ascii ''coverage'') (lower (issue_type request))
           \<or> is_substr (ascii ''cobertura'') (lower (issue_type request))
        then [KENMEI_PRODUCTS_DB ! 1] else [])
     @ [KENMEI_PRODUCTS_DB ! 0]"
    by (simp add: recommended_products_eq recommend_def Let_def del: One_nat_def)
  moreover have "distinct (recommended_products (analyze_diagnostic clk now request))"
    by (simp only: recommended_products_eq recommend_distinct)
  ultimately show ?thesis
    using product_name_nth products_length by blast
qed

text \<open>
  A coverage issue with the symptom \<open>signal drop\<close> fires all three rules.
\<close>

theorem recommended_products_rules_witness:
  "map product_name (recommended_products (analyze_diagnostic frozen_clock 0 downtown_request)) =
     [ascii ''Kenmei Interference Detection'',
      ascii ''Kenmei Geolocation - Virtual Drive Testing'',
      ascii ''Kenmei AI Agents - Anomaly Detection'']"
proof -
  have s: "is_substr (ascii ''signal'') (lower (join (ascii '' '') (symptoms downtown_request)))"
    by (simp add: downtown_request_def str_eval)
  have c: "is_substr (ascii ''coverage'') (lower (issue_type downtown_request))"
    by (simp add: downtown_request_def str_eval)
  show ?thesis
    using recommended_products_rules [of frozen_clock 0 downtown_request] s c
    by (simp del: One_nat_def)
qed

section \<open>More facts about strings\<close>

lemma is_substr_Nil [simp]: "is_substr [] b"
  by (induction b) simp_all

lemma lower_cp_idem: "lower_cp (lower_cp c) = lower_cp c"
  by (simp add: lower_cp_def)

lemma lower_idem: "lower (lower s) = lower s"
  by (simp add: lower_def lower_cp_idem)

lemma lower_Nil [simp]: "lower [] = []"
  by (simp add: lower_def)

section \<open>The reversed stable sort\<close>

lemma mset_insort_reverse: "mset (insort_reverse key x xs) = add_mset x (mset xs)"
  by (induction xs) simp_all

lemma mset_sort_reverse: "mset (sort_reverse key xs) = mset xs"
  by (induction xs) (simp_all add: mset_insort_reverse)

lemma set_insort_reverse: "set (insort_reverse key x xs) = insert x (set xs)"
  by (induction xs) auto

lemma sorted_insort_reverse:
  "sorted_wrt (\<lambda>a b. key b \<le> key a) xs
     \<Longrightarrow> sorted_wrt (\<lambda>a b. key b \<le> key a) (insort_reverse key x xs)"
proof (induction xs)
  case Nil
  show ?case by simp
next
  case (Cons y ys)
  show ?case
  proof (cases "key y \<le> key x")
    case True
    with Cons.prems show ?thesis by (auto intro: order_trans)
  next
    case False
    then have "key x \<le> key y" by simp
    with Cons False show ?thesis by (auto simp: set_insort_reverse)
  qed
qed

lemma sorted_sort_reverse: "sorted_wrt (\<lambda>a b. key b \<le> key a) (sort_reverse key xs)"
  by (induction xs) (simp_all add: sorted_insort_reverse)

lemma filter_insort_reverse:
  "filter (\<lambda>y. key y = r) (insort_reverse key x xs) =
     (if key x = r then x # filter (\<lambda>y. key y = r) xs else filter (\<lambda>y. key y = r) xs)"
  by (induction xs) auto

lemma stable_sort_reverse:
  "filter (\<lambda>y. key y = r) (sort_reverse key xs) = filter (\<lambda>y. key y = r) xs"
  by (induction xs) (simp_all add: filter_insort_reverse)

lemma sort_reverse_Nil_iff: "sort_reverse key xs = [] \<longleftrightarrow> xs = []"
  using arg_cong [OF mset_sort_reverse [of key xs], of size] by (cases xs) auto

section \<open>Case query\<close>

lemma case_location_types:
  "map location_type SIMILAR_CASES_DB =
     [ascii ''urban'', ascii ''industrial'', ascii ''highway'', ascii ''underground'']"
  by (simp add: SIMILAR_CASES_DB_def)

lemma case_location_type_lower:
  "c \<in> set SIMILAR_CASES_DB \<Longrightarrow> lower (location_type c) = location_type c"
proof -
  assume "c \<in> set SIMILAR_CASES_DB"
  then have "location_type c \<in> set (map location_type SIMILAR_CASES_DB)" by simp
  then show ?thesis unfolding case_location_types by (auto simp: str_eval)
qed

lemma cases_selected:
  "(case given lt of None \<Rightarrow> SIMILAR_CASES_DB
    | Some l \<Rightarrow> filter (\<lambda>c. location_type c = lower l) SIMILAR_CASES_DB)
   = cases_matching (given lt)"
proof (cases "given lt")
  case None
  then show ?thesis by (simp add: cases_matching_def)
next
  case (Some l)
  have "filter (\<lambda>c. location_type c = lower l) SIMILAR_CASES_DB
      = filter (\<lambda>c. lower (location_type c) = lower l) SIMILAR_CASES_DB"
    by (rule filter_cong) (simp_all add: case_location_type_lower)
  with Some show ?thesis by (simp add: cases_matching_def)
qed

lemma get_similar_cases_eq:
  "get_similar_cases lt = sort_reverse success_rate (cases_matching (given lt))"
  by (simp add: get_similar_cases_def Let_def cases_selected)

lemma case_ids:
  "map case_id SIMILAR_CASES_DB =
     [ascii ''CASE-5G-0782'', ascii ''CASE-5G-0654'', ascii ''CASE-4G-1023'', ascii ''CASE-VLT-0445'']"
  by (simp add: SIMILAR_CASES_DB_def)

text \<open>
  Claim C6 as stated covers every filter value. The empty string is a value, and no case has
  an empty location type; but \<open>if location_type:\<close> is false for it, so the handler skips the
  filter and returns the whole catalog.
\<close>

theorem case_query_empty_filter_counterexample:
  "set (get_similar_cases (Some [])) \<noteq> set (cases_matching (Some []))"
proof -
  have "cases_matching (Some []) = []"
    by (simp add: cases_matching_def case_location_type_lower cong: filter_cong)
      (simp add: SIMILAR_CASES_DB_def ascii_def)
  moreover have "set (get_similar_cases (Some [])) = set SIMILAR_CASES_DB"
    using arg_cong [OF mset_sort_reverse [of success_rate SIMILAR_CASES_DB], of set_mset]
    by (simp add: get_similar_cases_eq cases_matching_def)
  moreover have "SIMILAR_CASES_DB \<noteq> []"
    using arg_cong [OF case_ids, of length] by auto
  ultimately show ?thesis by simp
qed

text \<open>
  Claim C6, amended. The case query returns the cases whose location type equals the filter
  regardless of case, all cases when the filter is absent or empty; sorted by success rate,
  highest first; cases of equal success rate in their catalog order.
\<close>

theorem case_query_sorted_stable:
  "mset (get_similar_cases lt) = mset (cases_matching (given lt))
   \<and> sorted_wrt (\<lambda>a b. success_rate b \<le> success_rate a) (get_similar_cases lt)
   \<and> (\<forall>r. filter (\<lambda>c. success_rate c = r) (get_similar_cases lt)
           = filter (\<lambda>c. success_rate c = r) (cases_matching (given lt)))
   \<and> subseq (cases_matching (given lt)) SIMILAR_CASES_DB"
  by (simp add: get_similar_cases_eq mset_sort_reverse sorted_sort_reverse stable_sort_reverse)
    (simp add: cases_matching_def split: option.split)

text \<open>
  Without a filter the four cases come back by success rate (1.0, 0.98, 0.95, 0.92); the
  filter \<open>HighWay\<close> selects the highway case.
\<close>

theorem case_query_sorted_stable_witness:
  "map case_id (get_similar_cases None) =
     [ascii ''CASE-4G-1023'', ascii ''CASE-5G-0782'', ascii ''CASE-VLT-0445'', ascii ''CASE-5G-0654'']
   \<and> map case_id (get_similar_cases (Some (ascii ''HighWay''))) = [ascii ''CASE-4G-1023'']
   \<and> sorted_wrt (\<lambda>a b. success_rate b \<le> success_rate a) (get_similar_cases None)"
proof -
  have a: "map case_id (get_similar_cases None) =
     [ascii ''CASE-4G-1023'', ascii ''CASE-5G-0782'', ascii ''CASE-VLT-0445'', ascii ''CASE-5G-0654'']"
    by (simp add: get_similar_cases_def SIMILAR_CASES_DB_def)
  have b: "map case_id (get_similar_cases (Some (ascii ''HighWay''))) = [ascii ''CASE-4G-1023'']"
    by (simp add: get_similar_cases_def SIMILAR_CASES_DB_def str_eval)
  from a b case_query_sorted_stable [of None] show ?thesis by blast
qed

section \<open>Incident query\<close>

lemma incident_severity_lower:
  "inc \<in> set (ACTIVE_INCIDENTS_DB clk) \<Longrightarrow> lower (severity inc) = severity inc"
proof -
  assume "inc \<in> set (ACTIVE_INCIDENTS_DB clk)"
  then have "severity inc \<in> set (map severity (ACTIVE_INCIDENTS_DB clk))" by simp
  moreover have "map severity (ACTIVE_INCIDENTS_DB clk) = [ascii ''high'', ascii ''medium'']"
    by (simp add: ACTIVE_INCIDENTS_DB_def)
  ultimately show ?thesis by (auto simp: str_eval)
qed

lemma severity_test:
  "inc \<in> set (ACTIVE_INCIDENTS_DB clk) \<Longrightarrow> (severity inc = lower s) = (lower (severity inc) = lower s)"
  using incident_severity_lower [of inc clk] lower_idem [of s] by metis

lemma get_active_incidents_eq:
  "get_active_incidents clk loc sev = incidents_matching clk loc (given sev)"
proof -
  have loc: "location_filter loc xs =
      filter (\<lambda>inc. case loc of None \<Rightarrow> True
                     | Some l \<Rightarrow> is_substr (lower l) (lower (affected_area inc))) xs" for xs
    by (cases loc) (simp_all add: location_filter_def)
  have sev: "severity_filter sev xs =
      filter (\<lambda>inc. case given sev of None \<Rightarrow> True | Some s \<Rightarrow> severity inc = lower s) xs" for xs
    by (cases "given sev") (simp_all add: severity_filter_def)
  have "get_active_incidents clk loc sev =
      filter (\<lambda>inc. (case loc of None \<Rightarrow> True
                      | Some l \<Rightarrow> is_substr (lower l) (lower (affected_area inc)))
                  \<and> (case given sev of None \<Rightarrow> True | Some s \<Rightarrow> severity inc = lower s))
        (ACTIVE_INCIDENTS_DB clk)"
    by (simp add: get_active_incidents_def Let_def loc sev conj_commute)
  also have "\<dots> = incidents_matching clk loc (given sev)"
    unfolding incidents_matching_def
    by (rule filter_cong) (auto simp: severity_test split: option.splits)
  finally show ?thesis .
qed

lemma incident_ids:
  "map incident_id (ACTIVE_INCIDENTS_DB clk) = [ascii ''INC-2024-1142'', ascii ''INC-2024-1138'']"
  by (simp add: ACTIVE_INCIDENTS_DB_def)

text \<open>
  Claim C7 as stated covers every pair of filter values. No incident has the empty severity,
  but \<open>if severity:\<close> is false for the empty string, so the handler skips the filter and
  returns every incident.
\<close>

theorem incident_query_empty_severity_counterexample:
  "get_active_incidents frozen_clock None (Some []) \<noteq> incidents_matching frozen_clock None (Some [])"
proof -
  have "incidents_matching frozen_clock None (Some []) = []"
    by (simp add: incidents_matching_def incident_severity_lower cong: filter_cong)
      (simp add: ACTIVE_INCIDENTS_DB_def ascii_def)
  moreover have "get_active_incidents frozen_clock None (Some []) = ACTIVE_INCIDENTS_DB frozen_clock"
    by (simp add: get_active_incidents_def location_filter_def severity_filter_def)
  moreover have "ACTIVE_INCIDENTS_DB frozen_clock \<noteq> []"
    using arg_cong [OF incident_ids [of frozen_clock], of length] by auto
  ultimately show ?thesis by simp
qed

text \<open>
  Claim C7, amended. The incident query returns exactly the catalog incidents whose affected
  area contains the location regardless of case and whose severity equals the given one
  regardless of case, an absent filter and the empty severity passing every incident; in
  catalog order.
\<close>

theorem incident_query_filters:
  "get_active_incidents clk loc sev = incidents_matching clk loc (given sev)
   \<and> subseq (get_active_incidents clk loc sev) (ACTIVE_INCIDENTS_DB clk)"
  by (simp add: get_active_incidents_eq) (simp add: incidents_matching_def)

text \<open>
  \<open>PATERNA\<close> with \<open>Medium\<close> selects the second incident; no filters select both.
\<close>

theorem incident_query_filters_witness:
  "map incident_id (incidents_matching frozen_clock (Some (ascii ''PATERNA'')) (given (Some (ascii ''Medium''))))
     = [ascii ''INC-2024-1138'']
   \<and> map incident_id (incidents_matching frozen_clock None (given None))
     = [ascii ''INC-2024-1142'', ascii ''INC-2024-1138'']"
proof -
  have a: "map incident_id (get_active_incidents frozen_clock (Some (ascii ''PATERNA'')) (Some (ascii ''Medium'')))
     = [ascii ''INC-2024-1138'']"
    by (simp add: get_active_incidents_def location_filter_def severity_filter_def
          ACTIVE_INCIDENTS_DB_def str_eval)
  have b: "map incident_id (get_active_incidents frozen_clock None None)
     = [ascii ''INC-2024-1142'', ascii ''INC-2024-1138'']"
    by (simp add: get_active_incidents_def location_filter_def severity_filter_def incident_ids)
  from a b incident_query_filters [of frozen_clock "Some (ascii ''PATERNA'')" "Some (ascii ''Medium'')"]
    incident_query_filters [of frozen_clock None None]
  show ?thesis by simp
qed

section \<open>The fields of the diagnostic response\<close>

lemma active_incidents_eq:
  "active_incidents (analyze_diagnostic clk now request) =
     filter (\<lambda>inc. is_substr (lower (location request)) (lower (affected_area inc)))
       (ACTIVE_INCIDENTS_DB clk)"
  by (simp add: analyze_diagnostic_def Let_def)

lemma scheduled_maintenance_eq:
  "scheduled_maintenance (analyze_diagnostic clk now request) =
     filter (is_active now) (SCHEDULED_MAINTENANCE_DB clk)"
  by (simp add: analyze_diagnostic_def Let_def)

lemma similar_cases_eq:
  "similar_cases (analyze_diagnostic clk now request) =
     take 3 (matched_cases (classify_location (lower (location request))))"
  by (simp add: analyze_diagnostic_def Let_def)

lemma context_found_eq:
  "context_found (analyze_diagnostic clk now request) =
     (cell_sites_nearby (analyze_diagnostic clk now request) \<noteq> []
       \<or> active_incidents (analyze_diagnostic clk now request) \<noteq> [])"
  by (simp add: analyze_diagnostic_def Let_def)

lemma additional_context_eq:
  "additional_context (analyze_diagnostic clk now request) =
     (let parts = context_parts (cell_sites_nearby (analyze_diagnostic clk now request))
                    (active_incidents (analyze_diagnostic clk now request))
                    (scheduled_maintenance (analyze_diagnostic clk now request))
                    (matched_cases (classify_location (lower (location request))))
      in if parts \<noteq> [] then join [0xA] parts else no_context)"
  by (simp add: analyze_diagnostic_def Let_def)

section \<open>Result flag\<close>

lemma nowhere_sites: "cell_sites_nearby (analyze_diagnostic clk now nowhere_request) = []"
  by (simp add: cell_sites_nearby_eq sites_loop_concat nowhere_request_def CELL_SITES_DB_def str_eval)

lemma nowhere_incidents: "active_incidents (analyze_diagnostic clk now nowhere_request) = []"
  by (simp add: active_incidents_eq nowhere_request_def ACTIVE_INCIDENTS_DB_def str_eval)

lemma nowhere_cases: "similar_cases (analyze_diagnostic clk now nowhere_request) \<noteq> []"
  by (simp add: similar_cases_eq nowhere_request_def classify_location_def matched_cases_def
        SIMILAR_CASES_DB_def str_eval)

text \<open>
  Claim C9. \<open>context_found\<close> is true exactly when the resolved site list or the resolved
  incident list is not empty. The time of the call, which is all the maintenance result
  depends on, does not change the flag; and a request that resolves no site and no incident
  has the flag false although active maintenance and a similar case were found.
\<close>

theorem context_found_sites_or_incidents:
  "context_found (analyze_diagnostic clk now request)
     = (cell_sites_nearby (analyze_diagnostic clk now request) \<noteq> []
         \<or> active_incidents (analyze_diagnostic clk now request) \<noteq> [])
   \<and> context_found (analyze_diagnostic clk now request)
       = context_found (analyze_diagnostic clk now' request)
   \<and> \<not> context_found (analyze_diagnostic frozen_clock 0 nowhere_request)
   \<and> scheduled_maintenance (analyze_diagnostic frozen_clock 0 nowhere_request) \<noteq> []
   \<and> similar_cases (analyze_diagnostic frozen_clock 0 nowhere_request) \<noteq> []"
proof -
  have "SCHEDULED_MAINTENANCE_DB frozen_clock \<noteq> []"
    by (simp add: SCHEDULED_MAINTENANCE_DB_def)
  then have m: "scheduled_maintenance (analyze_diagnostic frozen_clock 0 nowhere_request) \<noteq> []"
    by (simp add: scheduled_maintenance_eq maintenance_frozen)
  have n: "context_found (analyze_diagnostic clk now request)
       = context_found (analyze_diagnostic clk now' request)"
    by (simp add: context_found_eq cell_sites_nearby_eq active_incidents_eq)
  have f: "\<not> context_found (analyze_diagnostic frozen_clock 0 nowhere_request)"
    by (simp add: context_found_eq nowhere_sites nowhere_incidents)
  from context_found_eq [of clk now request] n f m nowhere_cases [of frozen_clock 0]
  show ?thesis by blast
qed

text \<open>
  The request for \<open>downtown valencia\<close> resolves sites, and its flag is true.
\<close>

theorem context_found_sites_or_incidents_witness:
  "cell_sites_nearby (analyze_diagnostic frozen_clock 0 downtown_request) \<noteq> []
   \<and> context_found (analyze_diagnostic frozen_clock 0 downtown_request)"
proof -
  have "cell_sites_nearby (analyze_diagnostic frozen_clock 0 downtown_request) \<noteq> []"
    by (simp add: cell_sites_nearby_eq sites_loop_concat downtown_request_def CELL_SITES_DB_def str_eval)
  with context_found_sites_or_incidents [of frozen_clock 0 downtown_request 0]
  show ?thesis by blast
qed

section \<open>Matched cases and the narrative\<close>

lemma join_snoc: "join sep (ps @ [l]) = (if ps = [] then l else join sep ps @ sep @ l)"
  by (induction sep ps rule: join.induct) simp_all

lemma classify_location_range:
  "classify_location k \<in>
     {ascii ''urban'', ascii ''industrial'', ascii ''highway'', ascii ''underground''}"
  by (simp add: classify_location_def)

lemma filter_location_type_nonempty:
  "lt \<in> {ascii ''urban'', ascii ''industrial'', ascii ''highway'', ascii ''underground''}
     \<Longrightarrow> filter (\<lambda>c. location_type c = lt) SIMILAR_CASES_DB \<noteq> []"
proof -
  assume "lt \<in> {ascii ''urban'', ascii ''industrial'', ascii ''highway'', ascii ''underground''}"
  then have "lt \<in> set (map location_type SIMILAR_CASES_DB)"
    unfolding case_location_types by simp
  then obtain c where "c \<in> set SIMILAR_CASES_DB" "location_type c = lt" by auto
  then show ?thesis by (auto simp: filter_empty_conv)
qed

lemma matched_cases_nonempty: "matched_cases (classify_location k) \<noteq> []"
  by (simp add: matched_cases_def sort_reverse_Nil_iff
        filter_location_type_nonempty [OF classify_location_range])

lemma context_parts_last:
  "cases \<noteq> [] \<Longrightarrow> \<exists>ps. context_parts cell_sites incidents maint cases = ps @ [cases_line cases]"
  by (simp add: context_parts_def Let_def)

lemma last_cases_line: "cases_line cases \<noteq> [] \<and> last (cases_line cases) = 0x6F"
  by (simp add: cases_line_def ascii_def)

lemma last_no_context: "last no_context = 0x65"
  by (simp add: no_context_def ascii_def)

text \<open>
  Claim C5. The location type of every request is one of \<open>urban\<close>, \<open>industrial\<close>,
  \<open>highway\<close>, \<open>underground\<close>; each of the four matches a case of the catalog; so the matched
  case list, and the \<open>similar_cases\<close> of the response, are never empty. The narrative is
  therefore the joined lines, the last of them the case-count line, and never the sentinel
  \<open>No hay contexto adicional disponible\<close>.
\<close>

theorem case_line_always_present:
  "classify_location (lower (location request)) \<in>
     {ascii ''urban'', ascii ''industrial'', ascii ''highway'', ascii ''underground''}
   \<and> (\<forall>lt \<in> {ascii ''urban'', ascii ''industrial'', ascii ''highway'', ascii ''underground''}.
         filter (\<lambda>c. location_type c = lt) SIMILAR_CASES_DB \<noteq> [])
   \<and> matched_cases (classify_location (lower (location request))) \<noteq> []
   \<and> similar_cases (analyze_diagnostic clk now request) \<noteq> []
   \<and> (\<exists>ps. additional_context (analyze_diagnostic clk now request) =
          join [0xA] (ps @ [cases_line (matched_cases (classify_location (lower (location request))))]))
   \<and> suffix (cases_line (matched_cases (classify_location (lower (location request)))))
        (additional_context (analyze_diagnostic clk now request))
   \<and> additional_context (analyze_diagnostic clk now request) \<noteq> no_context"
proof -
  let ?cases = "matched_cases (classify_location (lower (location request)))"
  let ?ctx = "additional_context (analyze_diagnostic clk now request)"
  have ne: "?cases \<noteq> []" by (rule matched_cases_nonempty)
  then have sc: "similar_cases (analyze_diagnostic clk now request) \<noteq> []"
    by (simp add: similar_cases_eq)
  from context_parts_last [OF ne] obtain ps where
    ps: "context_parts (cell_sites_nearby (analyze_diagnostic clk now request))
           (active_incidents (analyze_diagnostic clk now request))
           (scheduled_maintenance (analyze_diagnostic clk now request)) ?cases
         = ps @ [cases_line ?cases]" by blast
  have ctx: "?ctx = join [0xA] (ps @ [cases_line ?cases])"
    by (simp add: additional_context_eq ps Let_def)
  then have suf: "suffix (cases_line ?cases) ?ctx"
    by (simp add: join_snoc suffix_def)
  then obtain pre where pre: "?ctx = pre @ cases_line ?cases" by (auto simp: suffix_def)
  have "last ?ctx = 0x6F" unfolding pre using last_cases_line [of ?cases] by simp
  then have "?ctx \<noteq> no_context" using last_no_context by auto
  with classify_location_range [of "lower (location request)"]
    filter_location_type_nonempty ne sc ctx suf
  show ?thesis by blast
qed

text \<open>
  A request that resolves neither sites nor incidents still gets a case and a narrative.
\<close>

theorem case_line_always_present_witness:
  "ascii ''urban'' \<in> {ascii ''urban'', ascii ''industrial'', ascii ''highway'', ascii ''underground''}
   \<and> filter (\<lambda>c. location_type c = ascii ''urban'') SIMILAR_CASES_DB \<noteq> []
   \<and> similar_cases (analyze_diagnostic frozen_clock 0 nowhere_request) \<noteq> []
   \<and> additional_context (analyze_diagnostic frozen_clock 0 nowhere_request) \<noteq> no_context"
  using case_line_always_present [of nowhere_request frozen_clock 0] by simp

text \<open>
  The narrative in full for a request that resolves no site and no incident while the
  maintenance window is open: the maintenance line, a line feed, and the case-count line for
  the one industrial case.
\<close>

lemma nowhere_location_type: "classify_location (lower (location nowhere_request)) = ascii ''industrial''"
    by (simp add: nowhere_request_def classify_location_def str_eval)
lemma industrial_cases_count: "length (matched_cases (ascii ''industrial'')) = 1"
    by (simp add: matched_cases_def SIMILAR_CASES_DB_def ascii_def)
lemma narrative_nowhere:
  "additional_context (analyze_diagnostic frozen_clock 0 nowhere_request) =
     maintenance_line @ [0xA] @ [0x1F4DA] @ ascii '' Se encontraron 1 casos similares resueltos con ''
       @ [0xE9] @ ascii ''xito''"
proof -
  from industrial_cases_count have ne: "matched_cases (ascii ''industrial'') \<noteq> []" by auto
  have m: "SCHEDULED_MAINTENANCE_DB frozen_clock \<noteq> []"
    by (simp add: SCHEDULED_MAINTENANCE_DB_def)
  have p: "context_parts [] [] (SCHEDULED_MAINTENANCE_DB frozen_clock) (matched_cases (ascii ''industrial''))
     = [maintenance_line, cases_line (matched_cases (ascii ''industrial''))]"
    using m ne by (simp add: context_parts_def Let_def)
  have "additional_context (analyze_diagnostic frozen_clock 0 nowhere_request) =
      join [0xA] [maintenance_line, cases_line (matched_cases (ascii ''industrial''))]"
    unfolding additional_context_eq nowhere_sites nowhere_incidents scheduled_maintenance_eq
      maintenance_frozen nowhere_location_type p by (simp add: Let_def)
  also have "\<dots> = maintenance_line @ [0xA] @ cases_line (matched_cases (ascii ''industrial''))"
    by simp
  also have "cases_line (matched_cases (ascii ''industrial'')) =
     [0x1F4DA] @ ascii '' Se encontraron 1 casos similares resueltos con '' @ [0xE9] @ ascii ''xito''"
    unfolding cases_line_def industrial_cases_count by (simp add: str_nat.simps ascii_def)
  finally show ?thesis .
qed

section \<open>Site lookup\<close>

lemma distinct_bucket_keys: "distinct (map fst CELL_SITES_DB)"
  unfolding bucket_keys by (simp add: ascii_def)

lemma get_cell_sites_found:
  "(lower loc, bucket) \<in> set CELL_SITES_DB \<Longrightarrow> get_cell_sites loc = Inr bucket"
  using map_of_is_SomeI [OF distinct_bucket_keys, of "lower loc" bucket]
  by (simp add: get_cell_sites_def Let_def)

lemma get_cell_sites_not_found:
  "lower loc \<notin> fst ` set CELL_SITES_DB \<Longrightarrow>
     get_cell_sites loc =
       Inl (HTTPException 404
             (ascii ''No cell sites found for location: '' @ loc @ ascii ''. Available: ''
                @ repr_list (map fst CELL_SITES_DB)))"
  using map_of_eq_None_iff [of CELL_SITES_DB "lower loc"]
  by (simp add: get_cell_sites_def Let_def)

lemma get_cell_sites_error_iff:
  "(\<exists>e. get_cell_sites loc = Inl e) = (lower loc \<notin> fst ` set CELL_SITES_DB)"
proof (cases "map_of CELL_SITES_DB (lower loc)")
  case None
  then show ?thesis
    using map_of_eq_None_iff [of CELL_SITES_DB "lower loc"]
    by (simp add: get_cell_sites_def Let_def)
next
  case (Some bucket)
  then show ?thesis
    using map_of_eq_None_iff [of CELL_SITES_DB "lower loc"]
    by (simp add: get_cell_sites_def Let_def)
qed

lemma is_substr_append: "is_substr a (p @ a @ s)"
  unfolding is_substr_iff by blast

lemma is_substr_join: "x \<in> set xs \<Longrightarrow> is_substr x (join sep xs)"
proof (induction sep xs rule: join.induct)
  case (1 sep)
  then show ?case by simp
next
  case (2 sep p)
  then show ?case using is_substr_append [of x "[]" "[]"] by simp
next
  case (3 sep p q ps)
  show ?case
  proof (cases "x = p")
    case True
    then show ?thesis using is_substr_append [of p "[]" "sep @ join sep (q # ps)"] by simp
  next
    case False
    with 3 have "is_substr x (join sep (q # ps))" by simp
    then obtain a b where "join sep (q # ps) = a @ x @ b" unfolding is_substr_iff by blast
    then have "join sep (p # q # ps) = (p @ sep @ a) @ x @ b" by simp
    then show ?thesis unfolding is_substr_iff by blast
  qed
qed

lemma keys_in_message:
  "k \<in> set ks \<Longrightarrow> is_substr k (pre @ repr_list ks)"
proof -
  assume "k \<in> set ks"
  then have "repr_str k \<in> set (map repr_str ks)" by simp
  then have "is_substr (repr_str k) (join (ascii '', '') (map repr_str ks))"
    by (rule is_substr_join)
  then obtain a b where "join (ascii '', '') (map repr_str ks) = a @ repr_str k @ b"
    unfolding is_substr_iff by blast
  then have "pre @ repr_list ks = (pre @ ascii ''['' @ a @ [0x27]) @ k @ ([0x27] @ b @ ascii '']'')"
    by (simp add: repr_list_def repr_str_def)
  then show ?thesis unfolding is_substr_iff by blast
qed

text \<open>
  Claim C8 as stated has every other query return an empty collection when nothing matches.
  No case has the empty location type and no incident the empty severity, so for the empty
  string nothing matches; but \<open>if location_type:\<close> and \<open>if severity:\<close> are false for it, the
  filter is skipped, and the handlers return their whole catalog.
\<close>

theorem empty_filter_not_empty_result_counterexample:
  "cases_matching (Some []) = [] \<and> get_similar_cases (Some []) \<noteq> []
   \<and> incidents_matching frozen_clock None (Some []) = []
   \<and> get_active_incidents frozen_clock None (Some []) \<noteq> []"
proof -
  have c: "cases_matching (Some []) = []"
    by (simp add: cases_matching_def case_location_type_lower cong: filter_cong)
      (simp add: SIMILAR_CASES_DB_def ascii_def)
  have "SIMILAR_CASES_DB \<noteq> []"
    using arg_cong [OF case_ids, of length] by auto
  then have g: "get_similar_cases (Some []) \<noteq> []"
    by (simp add: get_similar_cases_eq cases_matching_def sort_reverse_Nil_iff)
  have i: "incidents_matching frozen_clock None (Some []) = []"
    by (simp add: incidents_matching_def incident_severity_lower cong: filter_cong)
      (simp add: ACTIVE_INCIDENTS_DB_def ascii_def)
  have "ACTIVE_INCIDENTS_DB frozen_clock \<noteq> []"
    using arg_cong [OF incident_ids [of frozen_clock], of length] by auto
  then have a: "get_active_incidents frozen_clock None (Some []) \<noteq> []"
    by (simp add: get_active_incidents_def location_filter_def severity_filter_def)
  from c g i a show ?thesis by (intro conjI)
qed

text \<open>
  Claim C8, amended. The site lookup lowers the location and returns the bucket under that
  key, as the catalog has it; for a location whose lowered form is no key it raises the one
  error of the service, status 404, whose message carries the location as given and the list
  of all keys; and it raises in no other case. The other query handlers have no \<open>raise\<close>:
  their models return plain lists, and the list is empty whenever no record passes the
  filters, an absent filter and an empty filter string passing every record.
\<close>

theorem not_found_only_from_site_lookup:
  "(\<forall>bucket. (lower loc, bucket) \<in> set CELL_SITES_DB \<longrightarrow> get_cell_sites loc = Inr bucket)
   \<and> (lower loc \<notin> fst ` set CELL_SITES_DB \<longrightarrow>
        get_cell_sites loc =
          Inl (HTTPException 404
                (ascii ''No cell sites found for location: '' @ loc @ ascii ''. Available: ''
                   @ repr_list (map fst CELL_SITES_DB))))
   \<and> (\<exists>e. get_cell_sites loc = Inl e) = (lower loc \<notin> fst ` set CELL_SITES_DB)
   \<and> (\<forall>k \<in> fst ` set CELL_SITES_DB.
         is_substr k (ascii ''No cell sites found for location: '' @ loc @ ascii ''. Available: ''
                        @ repr_list (map fst CELL_SITES_DB)))
   \<and> ((\<forall>inc \<in> set (ACTIVE_INCIDENTS_DB clk).
          \<not> ((case iloc of None \<Rightarrow> True
                | Some l \<Rightarrow> is_substr (lower l) (lower (affected_area inc)))
             \<and> (case given sev of None \<Rightarrow> True
                | Some s \<Rightarrow> lower (severity inc) = lower s)))
        \<longrightarrow> get_active_incidents clk iloc sev = [])
   \<and> ((\<forall>m \<in> set (SCHEDULED_MAINTENANCE_DB clk).
          \<not> (active_only \<longrightarrow> scheduled_start m \<le> now \<and> now \<le> scheduled_end m))
        \<longrightarrow> get_scheduled_maintenance clk active_only now = [])
   \<and> ((\<forall>p \<in> set KENMEI_PRODUCTS_DB.
          \<not> (case given cat of None \<Rightarrow> True
              | Some c \<Rightarrow> is_substr (lower c) (lower (category p))))
        \<longrightarrow> get_kenmei_products cat = [])
   \<and> ((\<forall>c \<in> set SIMILAR_CASES_DB.
          \<not> (case given lt of None \<Rightarrow> True
              | Some l \<Rightarrow> lower (location_type c) = lower l))
        \<longrightarrow> get_similar_cases lt = [])"
proof -
  have keys: "is_substr k (ascii ''No cell sites found for location: '' @ loc @ ascii ''. Available: ''
                        @ repr_list (map fst CELL_SITES_DB))"
    if "k \<in> fst ` set CELL_SITES_DB" for k
    using keys_in_message [of k "map fst CELL_SITES_DB"
        "ascii ''No cell sites found for location: '' @ loc @ ascii ''. Available: ''"] that
    by simp
  have inc: "get_active_incidents clk iloc sev = []"
    if "\<forall>inc \<in> set (ACTIVE_INCIDENTS_DB clk).
          \<not> ((case iloc of None \<Rightarrow> True
                | Some l \<Rightarrow> is_substr (lower l) (lower (affected_area inc)))
             \<and> (case given sev of None \<Rightarrow> True
                | Some s \<Rightarrow> lower (severity inc) = lower s))"
    using that by (simp add: get_active_incidents_eq incidents_matching_def filter_empty_conv)
  have mnt: "get_scheduled_maintenance clk active_only now = []"
    if "\<forall>m \<in> set (SCHEDULED_MAINTENANCE_DB clk).
          \<not> (active_only \<longrightarrow> scheduled_start m \<le> now \<and> now \<le> scheduled_end m)"
  proof (cases active_only)
    case True
    with that show ?thesis
      by (simp add: get_scheduled_maintenance_def is_active_def filter_empty_conv)
  next
    case False
    with that have "set (SCHEDULED_MAINTENANCE_DB clk) = {}" by auto
    with False show ?thesis by (simp add: get_scheduled_maintenance_def)
  qed
  have prd: "get_kenmei_products cat = []"
    if h: "\<forall>p \<in> set KENMEI_PRODUCTS_DB.
          \<not> (case given cat of None \<Rightarrow> True
              | Some c \<Rightarrow> is_substr (lower c) (lower (category p)))"
  proof (cases "given cat")
    case None
    with h have "set KENMEI_PRODUCTS_DB = {}" by auto
    with None show ?thesis by (simp add: get_kenmei_products_def)
  next
    case (Some c)
    with h show ?thesis by (simp add: get_kenmei_products_def filter_empty_conv)
  qed
  have cs: "get_similar_cases lt = []"
    if h: "\<forall>c \<in> set SIMILAR_CASES_DB.
          \<not> (case given lt of None \<Rightarrow> True
              | Some l \<Rightarrow> lower (location_type c) = lower l)"
  proof (cases "given lt")
    case None
    with h have "set SIMILAR_CASES_DB = {}" by auto
    with None show ?thesis by (simp add: get_similar_cases_eq cases_matching_def)
  next
    case (Some l)
    with h show ?thesis
      by (simp add: get_similar_cases_eq cases_matching_def filter_empty_conv)
  qed
  show ?thesis
    using get_cell_sites_found [of loc] get_cell_sites_not_found [of loc]
      get_cell_sites_error_iff [of loc] keys inc mnt prd cs
    by blast
qed

text \<open>
  \<open>Valencia\<close> finds the three sites of the \<open>valencia\<close> bucket; \<open>Nowhere\<close> is not found; an
  unknown area, a severity no incident has, an unknown category or location type, and a time
  after the maintenance window give empty lists.
\<close>

theorem not_found_only_from_site_lookup_witness:
  "(\<exists>bucket. (lower (ascii ''Valencia''), bucket) \<in> set CELL_SITES_DB
       \<and> get_cell_sites (ascii ''Valencia'') = Inr bucket
       \<and> map site_id bucket = [ascii ''VLC-001'', ascii ''VLC-002'', ascii ''VLC-003''])
   \<and> lower (ascii ''Nowhere'') \<notin> fst ` set CELL_SITES_DB
   \<and> get_cell_sites (ascii ''Nowhere'') =
        Inl (HTTPException 404
              (ascii ''No cell sites found for location: Nowhere. Available: ''
                 @ repr_list [ascii ''valencia'', ascii ''paterna'', ascii ''madrid'', ascii ''barcelona'']))
   \<and> get_active_incidents frozen_clock (Some (ascii ''Sevilla'')) None = []
   \<and> get_active_incidents frozen_clock None (Some (ascii ''Critical'')) = []
   \<and> get_kenmei_products (Some (ascii ''hardware'')) = []
   \<and> get_similar_cases (Some (ascii ''rural'')) = []
   \<and> get_scheduled_maintenance frozen_clock True (hours 5) = []"
proof -
  let ?b = "the (map_of CELL_SITES_DB (lower (ascii ''Valencia'')))"
  have b: "(lower (ascii ''Valencia''), ?b) \<in> set CELL_SITES_DB"
    by (simp add: CELL_SITES_DB_def str_eval)
  have ids: "map site_id ?b = [ascii ''VLC-001'', ascii ''VLC-002'', ascii ''VLC-003'']"
    by (simp add: CELL_SITES_DB_def str_eval)
  have n: "lower (ascii ''Nowhere'') \<notin> fst ` set CELL_SITES_DB"
    using bucket_keys by (simp add: str_eval flip: set_map)
  have i: "\<forall>inc \<in> set (ACTIVE_INCIDENTS_DB frozen_clock).
      \<not> ((case Some (ascii ''Sevilla'') of None \<Rightarrow> True
            | Some l \<Rightarrow> is_substr (lower l) (lower (affected_area inc)))
         \<and> (case given None of None \<Rightarrow> True
            | Some s \<Rightarrow> lower (severity inc) = lower s))"
    by (simp add: ACTIVE_INCIDENTS_DB_def str_eval)
  have s: "\<forall>inc \<in> set (ACTIVE_INCIDENTS_DB frozen_clock).
      \<not> ((case None of None \<Rightarrow> True
            | Some l \<Rightarrow> is_substr (lower l) (lower (affected_area inc)))
         \<and> (case given (Some (ascii ''Critical'')) of None \<Rightarrow> True
            | Some s \<Rightarrow> lower (severity inc) = lower s))"
    by (simp add: ACTIVE_INCIDENTS_DB_def str_eval)
  have p: "\<forall>p \<in> set KENMEI_PRODUCTS_DB.
      \<not> (case given (Some (ascii ''hardware'')) of None \<Rightarrow> True
          | Some c \<Rightarrow> is_substr (lower c) (lower (category p)))"
    by (simp add: KENMEI_PRODUCTS_DB_def str_eval)
  have c: "\<forall>c \<in> set SIMILAR_CASES_DB.
      \<not> (case given (Some (ascii ''rural'')) of None \<Rightarrow> True
          | Some l \<Rightarrow> lower (location_type c) = lower l)"
    by (simp add: SIMILAR_CASES_DB_def str_eval)
  have m: "\<forall>m \<in> set (SCHEDULED_MAINTENANCE_DB frozen_clock).
      \<not> (True \<longrightarrow> scheduled_start m \<le> hours 5 \<and> hours 5 \<le> scheduled_end m)"
    by (simp add: SCHEDULED_MAINTENANCE_DB_def frozen_clock_def hours_def)
  have k: "map fst CELL_SITES_DB = [ascii ''valencia'', ascii ''paterna'', ascii ''madrid'', ascii ''barcelona'']"
    by (rule bucket_keys)
  from not_found_only_from_site_lookup
         [of "ascii ''Valencia''" frozen_clock "Some (ascii ''Sevilla'')" None
             True "hours 5" "Some (ascii ''hardware'')" "Some (ascii ''rural'')"] b i p c m
  have v: "get_cell_sites (ascii ''Valencia'') = Inr ?b
     \<and> get_active_incidents frozen_clock (Some (ascii ''Sevilla'')) None = []
     \<and> get_kenmei_products (Some (ascii ''hardware'')) = []
     \<and> get_similar_cases (Some (ascii ''rural'')) = []
     \<and> get_scheduled_maintenance frozen_clock True (hours 5) = []"
    by blast
  from not_found_only_from_site_lookup
         [of "ascii ''Nowhere''" frozen_clock None "Some (ascii ''Critical'')"] n s
  have e: "get_cell_sites (ascii ''Nowhere'') =
        Inl (HTTPException 404
              (ascii ''No cell sites found for location: '' @ ascii ''Nowhere'' @ ascii ''. Available: ''
                 @ repr_list (map fst CELL_SITES_DB)))
     \<and> get_active_incidents frozen_clock None (Some (ascii ''Critical'')) = []"
    by blast
  have e': "get_cell_sites (ascii ''Nowhere'') =
        Inl (HTTPException 404
              (ascii ''No cell sites found for location: Nowhere. Available: ''
                 @ repr_list [ascii ''valencia'', ascii ''paterna'', ascii ''madrid'', ascii ''barcelona'']))"
    using e unfolding k by (simp add: ascii_def)
  from v have v1: "get_cell_sites (ascii ''Valencia'') = Inr ?b" by (rule conjunct1)
  have ex: "\<exists>bucket. (lower (ascii ''Valencia''), bucket) \<in> set CELL_SITES_DB
       \<and> get_cell_sites (ascii ''Valencia'') = Inr bucket
       \<and> map site_id bucket = [ascii ''VLC-001'', ascii ''VLC-002'', ascii ''VLC-003'']"
    by (rule exI [of _ ?b]) (intro conjI b v1 ids)
  from v have rest: "get_active_incidents frozen_clock (Some (ascii ''Sevilla'')) None = []
     \<and> get_kenmei_products (Some (ascii ''hardware'')) = []
     \<and> get_similar_cases (Some (ascii ''rural'')) = []
     \<and> get_scheduled_maintenance frozen_clock True (hours 5) = []"
    by (rule conjunct2)
  show ?thesis
    by (intro conjI ex n e' rest [THEN conjunct1] e [THEN conjunct2]
          rest [THEN conjunct2, THEN conjunct1]
          rest [THEN conjunct2, THEN conjunct2, THEN conjunct1]
          rest [THEN conjunct2, THEN conjunct2, THEN conjunct2])
qed

end
